theory Spec2Isabelle
  imports Main "HOL-Library.Word" "HOL-Library.Signed_Division"
begin

section \<open>The virtual Cortex-M board of hw/arm/virt-cortex-m.c\<close>

text \<open>
  The file defines one machine type. Its state is three 64-bit parameters on top of the
  generic machine state; \<open>virt_cortex_m_init\<close> assembles the board from them by a fixed
  sequence of calls into the memory, device and loader subsystems and one store to the
  global \<open>system_clock_scale\<close>. The calls are modelled as the list of calls the function
  makes, with the arguments it passes; what the callees answer (whether a region can be
  allocated, whether the device realizes) is a parameter of the model.
\<close>

subsection \<open>Integer types\<close>

text \<open>
  C integers are words of their width. Arithmetic on \<open>int64_t\<close> wraps around (the
  emulator is compiled with wrapping signed arithmetic), a conversion to a narrower type
  keeps the low bits, and \<open>sint\<close> and \<open>uint\<close> read a word as signed and unsigned.
\<close>

type_synonym int64_t = "64 word"
type_synonym c_int = "32 word"
type_synonym uint32_t = "32 word"
type_synonym uint64_t = "64 word"
type_synonym ram_addr_t = "64 word"

subsection \<open>Machine state\<close>

text \<open>
  The fields of the generic \<open>MachineState\<close> that this file reads. The structure is
  declared in hw/boards.h: \<open>ram_size\<close> is an unsigned 64-bit \<open>ram_addr_t\<close>, \<open>cpu_type\<close>
  a string and \<open>kernel_filename\<close> a string that may be absent.
\<close>

record MachineState =
  ram_size :: ram_addr_t
  cpu_type :: string
  kernel_filename :: "string option"

text \<open>\<open>VirtCortexMMachineState\<close>: the parent object followed by the three parameters.\<close>

record VirtCortexMMachineState = MachineState +
  flash_size_kb :: int64_t
  freq_mhz :: int64_t
  num_irq :: int64_t

text \<open>
  The process state the file touches: the machine object and the global
  \<open>system_clock_scale\<close>. The global holds the value of the 64-bit expression assigned to
  it; that value always fits the 32-bit \<open>int\<close> of its declaration (lemma
  \<open>clock_scale_fits_int\<close> below).
\<close>

record world =
  machine :: VirtCortexMMachineState
  system_clock_scale :: int64_t

subsection \<open>Calls into the platform\<close>

text \<open>
  The objects the function names: the two regions it allocates, the system memory
  returned by \<open>get_system_memory\<close>, the device returned by \<open>qdev_new\<close> and \<open>first_cpu\<close>.
\<close>

datatype object = Flash | Sram | System_memory | Nvic | First_cpu

datatype device_type = TYPE_ARMV7M

text \<open>
  One constructor for each platform function the file calls, carrying the arguments as
  the callee receives them. The size of a region arrives as the \<open>uint64_t\<close> of the
  parameter of \<open>memory_region_init_rom\<close> and \<open>memory_region_init_ram\<close> (see
  \<open>int_to_uint64\<close> below); the size given to the loader is an \<open>int\<close>, as the variable
  passed; an offset is the non-negative integer constant written in the source.
\<close>

datatype call =
    Memory_region_init_rom object string uint64_t
  | Memory_region_init_ram object string uint64_t
  | Memory_region_add_subregion object int object
  | Qdev_new device_type
  | Qdev_prop_set_uint32 object string uint32_t
  | Qdev_prop_set_string object string string
  | Qdev_prop_set_bit object string bool
  | Object_property_set_link object string object
  | Sysbus_realize object
  | Armv7m_load_kernel object "string option" c_int

text \<open>
  What the platform answers. A call given \<open>&error_fatal\<close> ends the process when it fails,
  one given \<open>&error_abort\<close> aborts it; \<open>sysbus_realize\<close> also returns a boolean that the
  function tests.
\<close>

datatype realize_result = Realize_true | Realize_false | Realize_fatal

record platform =
  memory_region_init_rom_ok :: "uint64_t \<Rightarrow> bool"
  memory_region_init_ram_ok :: "uint64_t \<Rightarrow> bool"
  object_property_set_link_ok :: bool
  sysbus_realize :: "uint32_t \<Rightarrow> string \<Rightarrow> realize_result"

text \<open>
  How a run of \<open>virt_cortex_m_init\<close> ends: it reaches its last statement, the process
  exits through \<open>error_fatal\<close>, it aborts through \<open>error_abort\<close>, the function returns at
  the test of \<open>sysbus_realize\<close>, or the division traps on a zero divisor.
\<close>

datatype outcome = Assembled | Exit_fatal | Abort | Returned_unrealized | Divide_trap

record result =
  outcome :: outcome
  calls :: "call list"
  final :: world

subsection \<open>Board assembly\<close>

text \<open>
  Modelled from the spec: \<open>NANOSECONDS_PER_SECOND\<close>, a macro of qemu/timer.h, is the
  64-bit constant 1,000,000,000 (the spec's \<open>nanosecondsPerSecond\<close>).
\<close>

definition NANOSECONDS_PER_SECOND :: int64_t where
  "NANOSECONDS_PER_SECOND = 1000000000"

text \<open>
  Division of two \<open>int64_t\<close> values as C defines it for a nonzero divisor: on the signed
  values, truncating toward zero.
\<close>

definition int64_div :: "int64_t \<Rightarrow> int64_t \<Rightarrow> int64_t" where
  "int64_div a b = word_of_int (sint a sdiv sint b)"

text \<open>Line 45: \<open>int flash_size = m->flash_size_kb * 1024;\<close>\<close>

definition flash_size :: "VirtCortexMMachineState \<Rightarrow> c_int" where
  "flash_size m = scast (flash_size_kb m * 1024)"

text \<open>Line 46: \<open>int sram_size = m->parent_obj.ram_size;\<close>\<close>

definition sram_size :: "VirtCortexMMachineState \<Rightarrow> c_int" where
  "sram_size m = ucast (ram_size m)"

text \<open>
  Modelled from the spec: the size parameter of \<open>memory_region_init_rom\<close> and
  \<open>memory_region_init_ram\<close>, which are declared in exec/memory.h and not in this file.
  The spec gives a region a size in bytes; the parameter is an unsigned 64-bit
  \<open>uint64_t\<close>. Lines 48 and 52 pass it an \<open>int\<close>, which C converts at the call by
  extending the sign: a negative \<open>int\<close> arrives as the value plus \<open>2^64\<close>.
\<close>

definition int_to_uint64 :: "c_int \<Rightarrow> uint64_t" where
  "int_to_uint64 n = scast n"

text \<open>Line 58: the \<open>int64_t\<close> field converted to the \<open>uint32_t\<close> parameter.\<close>

definition nvic_num_irq :: "VirtCortexMMachineState \<Rightarrow> uint32_t" where
  "nvic_num_irq m = scast (num_irq m)"

text \<open>Line 68: the divisor \<open>m->freq_mhz * 1000 * 1000\<close>.\<close>

definition clock_divisor :: "VirtCortexMMachineState \<Rightarrow> int64_t" where
  "clock_divisor m = freq_mhz m * 1000 * 1000"

text \<open>
  \<open>virt_cortex_m_init\<close>, lines 37 to 70: the calls in the order of the source. Each test
  is a point where the source can stop: the two region allocations and the realization
  through \<open>error_fatal\<close>, the link through \<open>error_abort\<close>, the \<open>return\<close> of line 65, and
  the division of line 68, which has no result for a zero divisor.
\<close>

definition virt_cortex_m_init :: "platform \<Rightarrow> world \<Rightarrow> result" where
  "virt_cortex_m_init p w =
     (let m = machine w;
          c1 = [Memory_region_init_rom Flash ''virt_cortex_m.flash''
                  (int_to_uint64 (flash_size m))]
      in if \<not> memory_region_init_rom_ok p (int_to_uint64 (flash_size m))
         then \<lparr>outcome = Exit_fatal, calls = c1, final = w\<rparr>
         else
     (let c2 = c1 @ [Memory_region_add_subregion System_memory 0 Flash,
                     Memory_region_init_ram Sram ''virt_cortex_m.sram''
                       (int_to_uint64 (sram_size m))]
      in if \<not> memory_region_init_ram_ok p (int_to_uint64 (sram_size m))
         then \<lparr>outcome = Exit_fatal, calls = c2, final = w\<rparr>
         else
     (let c3 = c2 @ [Memory_region_add_subregion System_memory 0x20000000 Sram,
                     Qdev_new TYPE_ARMV7M,
                     Qdev_prop_set_uint32 Nvic ''num-irq'' (nvic_num_irq m),
                     Qdev_prop_set_string Nvic ''cpu-type'' (cpu_type m),
                     Qdev_prop_set_bit Nvic ''enable-bitband'' True,
                     Object_property_set_link Nvic ''memory'' System_memory]
      in if \<not> object_property_set_link_ok p
         then \<lparr>outcome = Abort, calls = c3, final = w\<rparr>
         else
     (let c4 = c3 @ [Sysbus_realize Nvic]
      in case sysbus_realize p (nvic_num_irq m) (cpu_type m) of
           Realize_fatal \<Rightarrow> \<lparr>outcome = Exit_fatal, calls = c4, final = w\<rparr>
         | Realize_false \<Rightarrow> \<lparr>outcome = Returned_unrealized, calls = c4, final = w\<rparr>
         | Realize_true \<Rightarrow>
             if clock_divisor m = 0
             then \<lparr>outcome = Divide_trap, calls = c4, final = w\<rparr>
             else \<lparr>outcome = Assembled,
                   calls = c4 @ [Armv7m_load_kernel First_cpu (kernel_filename m)
                                   (flash_size m)],
                   final = w\<lparr>system_clock_scale :=
                             int64_div NANOSECONDS_PER_SECOND (clock_divisor m)\<rparr>\<rparr>))))"

text \<open>How far the platform lets a run go.\<close>

definition regions_created :: "platform \<Rightarrow> VirtCortexMMachineState \<Rightarrow> bool" where
  "regions_created p m =
     (memory_region_init_rom_ok p (int_to_uint64 (flash_size m)) \<and>
      memory_region_init_ram_ok p (int_to_uint64 (sram_size m)))"

definition realize_reached :: "platform \<Rightarrow> VirtCortexMMachineState \<Rightarrow> bool" where
  "realize_reached p m = (regions_created p m \<and> object_property_set_link_ok p)"

definition realized :: "platform \<Rightarrow> VirtCortexMMachineState \<Rightarrow> bool" where
  "realized p m =
     (realize_reached p m \<and> sysbus_realize p (nvic_num_irq m) (cpu_type m) = Realize_true)"

subsection \<open>Reading the calls\<close>

text \<open>
  The size a region was created with, an unsigned number of bytes read with \<open>uint\<close>, and
  the offset it was mapped at.
\<close>

fun region_size :: "object \<Rightarrow> call list \<Rightarrow> uint64_t option" where
  "region_size r [] = None"
| "region_size r (Memory_region_init_rom r' n s # cs) =
     (if r' = r then Some s else region_size r cs)"
| "region_size r (Memory_region_init_ram r' n s # cs) =
     (if r' = r then Some s else region_size r cs)"
| "region_size r (c # cs) = region_size r cs"

fun region_base :: "object \<Rightarrow> call list \<Rightarrow> int option" where
  "region_base r [] = None"
| "region_base r (Memory_region_add_subregion parent off r' # cs) =
     (if parent = System_memory \<and> r' = r then Some off else region_base r cs)"
| "region_base r (c # cs) = region_base r cs"

text \<open>The addresses a mapped region covers: from its base up to, not including, the end.\<close>

definition region_extent :: "object \<Rightarrow> call list \<Rightarrow> (int \<times> int) option" where
  "region_extent r cs =
     (case region_base r cs of
        None \<Rightarrow> None
      | Some b \<Rightarrow> (case region_size r cs of None \<Rightarrow> None | Some s \<Rightarrow> Some (b, b + uint s)))"

text \<open>The calls between the creation of the device and its realization.\<close>

definition calls_before_realize :: "call list \<Rightarrow> call list" where
  "calls_before_realize cs =
     takeWhile (\<lambda>c. c \<noteq> Sysbus_realize Nvic) (tl (dropWhile (\<lambda>c. c \<noteq> Qdev_new TYPE_ARMV7M) cs))"

fun loader_call :: "call \<Rightarrow> bool" where
  "loader_call (Armv7m_load_kernel cpu file sz) = True"
| "loader_call c = False"


subsection \<open>Instance initialization\<close>

text \<open>\<open>virt_cortex_m_instance_init\<close>, lines 151 to 157.\<close>

definition virt_cortex_m_instance_init :: "VirtCortexMMachineState \<Rightarrow> VirtCortexMMachineState" where
  "virt_cortex_m_instance_init m = m\<lparr>flash_size_kb := 1 * 1024, freq_mhz := 50, num_irq := 64\<rparr>"

subsection \<open>Property accessors\<close>

text \<open>
  Modelled from the spec: the visitor of qapi/visitor.h and its \<open>visit_type_int64\<close>, which
  are not in this file. The spec gives the accessors get and set semantics: a set
  overwrites the current value with the one the configuration layer supplies, a get
  returns the current value and changes nothing. So an input visitor carries the value
  to store (none when the input is not an integer, which is reported as an error and
  leaves the field alone), and an output visitor collects the values it is shown.
  \<open>visit_type_int64\<close> returns the visitor, the field and whether it succeeded.
\<close>

datatype visitor = Input_visitor "int64_t option" | Output_visitor "int64_t list"

fun visit_type_int64 :: "visitor \<Rightarrow> int64_t \<Rightarrow> visitor \<times> int64_t \<times> bool" where
  "visit_type_int64 (Input_visitor (Some x)) obj = (Input_visitor (Some x), x, True)"
| "visit_type_int64 (Input_visitor None) obj = (Input_visitor None, obj, False)"
| "visit_type_int64 (Output_visitor out) obj = (Output_visitor (out @ [obj]), obj, True)"

type_synonym accessor =
  "VirtCortexMMachineState \<Rightarrow> visitor \<Rightarrow> VirtCortexMMachineState \<times> visitor \<times> bool"

text \<open>Lines 72 to 106: each accessor hands the address of its field to the visitor.\<close>

definition flash_size_set :: accessor where
  "flash_size_set m v =
     (case visit_type_int64 v (flash_size_kb m) of
        (v', x, ok) \<Rightarrow> (m\<lparr>flash_size_kb := x\<rparr>, v', ok))"

definition flash_size_get :: accessor where
  "flash_size_get m v =
     (case visit_type_int64 v (flash_size_kb m) of
        (v', x, ok) \<Rightarrow> (m\<lparr>flash_size_kb := x\<rparr>, v', ok))"

definition freq_mhz_set :: accessor where
  "freq_mhz_set m v =
     (case visit_type_int64 v (freq_mhz m) of
        (v', x, ok) \<Rightarrow> (m\<lparr>freq_mhz := x\<rparr>, v', ok))"

definition freq_mhz_get :: accessor where
  "freq_mhz_get m v =
     (case visit_type_int64 v (freq_mhz m) of
        (v', x, ok) \<Rightarrow> (m\<lparr>freq_mhz := x\<rparr>, v', ok))"

definition num_irq_set :: accessor where
  "num_irq_set m v =
     (case visit_type_int64 v (num_irq m) of
        (v', x, ok) \<Rightarrow> (m\<lparr>num_irq := x\<rparr>, v', ok))"

definition num_irq_get :: accessor where
  "num_irq_get m v =
     (case visit_type_int64 v (num_irq m) of
        (v', x, ok) \<Rightarrow> (m\<lparr>num_irq := x\<rparr>, v', ok))"

subsection \<open>Class initialization\<close>

text \<open>
  The class as \<open>virt_cortex_m_class_init\<close> fills it: the description, the flag and the
  registered properties. (The \<open>init\<close> pointer is \<open>virt_cortex_m_init\<close>; the default CPU
  type is the result of a macro of the CPU headers and is kept as the macro's argument.)
\<close>

record property =
  prop_name :: string
  prop_type :: string
  prop_get :: accessor
  prop_set :: accessor
  prop_description :: "string option"

datatype cpu_type_name = ARM_CPU_TYPE_NAME string

record machine_class =
  desc :: string
  ignore_memory_transaction_failures :: bool
  default_cpu_type :: "cpu_type_name option"
  properties :: "property list"

text \<open>
  Modelled from the spec: the property functions of the object framework (qom/object.h),
  which are not in this file. The spec says the core registers, for each name, a get
  accessor, a set accessor and a description with the framework, which then serves reads
  and writes of the name through them. A registration goes in front of the properties of
  the parent class; a description is attached to the property of that name; a write
  runs the set accessor of the name on an input visitor holding the value, and a read
  runs the get accessor on an empty output visitor and takes what it collected.
\<close>

definition object_class_property_add ::
    "string \<Rightarrow> string \<Rightarrow> accessor \<Rightarrow> accessor \<Rightarrow> machine_class \<Rightarrow> machine_class" where
  "object_class_property_add name ty getter setter oc =
     oc\<lparr>properties :=
          \<lparr>prop_name = name, prop_type = ty, prop_get = getter, prop_set = setter,
            prop_description = None\<rparr> # properties oc\<rparr>"

definition object_class_property_set_description ::
    "string \<Rightarrow> string \<Rightarrow> machine_class \<Rightarrow> machine_class" where
  "object_class_property_set_description name d oc =
     oc\<lparr>properties :=
          map (\<lambda>pr. if prop_name pr = name then pr\<lparr>prop_description := Some d\<rparr> else pr)
            (properties oc)\<rparr>"

definition object_property_set_int ::
    "machine_class \<Rightarrow> string \<Rightarrow> int64_t \<Rightarrow> VirtCortexMMachineState
       \<Rightarrow> VirtCortexMMachineState option" where
  "object_property_set_int oc name value m =
     (case find (\<lambda>pr. prop_name pr = name) (properties oc) of
        None \<Rightarrow> None
      | Some pr \<Rightarrow> Some (fst (prop_set pr m (Input_visitor (Some value)))))"

definition object_property_get_int ::
    "machine_class \<Rightarrow> string \<Rightarrow> VirtCortexMMachineState \<Rightarrow> int64_t option" where
  "object_property_get_int oc name m =
     (case find (\<lambda>pr. prop_name pr = name) (properties oc) of
        None \<Rightarrow> None
      | Some pr \<Rightarrow>
          (case fst (snd (prop_get pr m (Output_visitor []))) of
             Output_visitor [x] \<Rightarrow> Some x
           | _ \<Rightarrow> None))"

text \<open>\<open>virt_cortex_m_class_init\<close>, lines 108 to 149.\<close>

definition virt_cortex_m_class_init :: "machine_class \<Rightarrow> machine_class" where
  "virt_cortex_m_class_init oc =
     (let mc = oc\<lparr>desc := ''Virtual ARM Cortex-M'',
                  ignore_memory_transaction_failures := True,
                  default_cpu_type := Some (ARM_CPU_TYPE_NAME ''cortex-m3'')\<rparr>;
          mc = object_class_property_add ''flash_kb'' ''int'' flash_size_get flash_size_set mc;
          mc = object_class_property_set_description ''flash_kb'' ''Flash size in KB'' mc;
          mc = object_class_property_add ''freq_mhz'' ''int'' freq_mhz_get freq_mhz_set mc;
          mc = object_class_property_set_description ''freq_mhz'' ''MCU frequency in MHz'' mc;
          mc = object_class_property_add ''num_irq'' ''int'' num_irq_get num_irq_set mc;
          mc = object_class_property_set_description ''num_irq'' ''Number of IRQs'' mc
      in mc)"

subsection \<open>Concrete platforms and boards\<close>

text \<open>A platform on which every call succeeds, and one whose device does not realize.\<close>

definition accepting_platform :: platform where
  "accepting_platform =
     \<lparr>memory_region_init_rom_ok = (\<lambda>sz. True),
      memory_region_init_ram_ok = (\<lambda>sz. True),
      object_property_set_link_ok = True,
      sysbus_realize = (\<lambda>n cpu. Realize_true)\<rparr>"

definition unrealizable_platform :: platform where
  "unrealizable_platform =
     \<lparr>memory_region_init_rom_ok = (\<lambda>sz. True),
      memory_region_init_ram_ok = (\<lambda>sz. True),
      object_property_set_link_ok = True,
      sysbus_realize = (\<lambda>n cpu. Realize_false)\<rparr>"

text \<open>
  A world whose machine has the given flash size, frequency, line count and RAM size,
  the CPU type of the class and no kernel, before anything has stored a clock scale.
\<close>

definition board :: "int64_t \<Rightarrow> int64_t \<Rightarrow> int64_t \<Rightarrow> ram_addr_t \<Rightarrow> world" where
  "board kb mhz irqs ram =
     \<lparr>machine = \<lparr>ram_size = ram, cpu_type = ''cortex-m3-arm-cpu'', kernel_filename = None,
                 flash_size_kb = kb, freq_mhz = mhz, num_irq = irqs\<rparr>,
      system_clock_scale = 0\<rparr>"

section \<open>Arithmetic of the conversions\<close>


lemma sint_flash_size:
  "sint (flash_size m) = signed_take_bit 31 (sint (flash_size_kb m) * 1024)"
  by (simp add: flash_size_def signed_scast_eq sint_word_ariths)

lemma sint_sram_size: "sint (sram_size m) = signed_take_bit 31 (uint (ram_size m))"
  by (simp add: sram_size_def signed_ucast_eq)

lemma uint_nvic_num_irq: "uint (nvic_num_irq m) = sint (num_irq m) mod 2 ^ 32"
  by (simp only: nvic_num_irq_def scast_eq uint_word_of_int) simp

text \<open>
  The conversion of a size to \<open>uint64_t\<close>: the signed value modulo \<open>2^64\<close>, which is the
  value itself when it is not negative and the value plus \<open>2^64\<close> when it is.
\<close>

lemma uint_int_to_uint64: "uint (int_to_uint64 n) = sint n mod 2 ^ 64"
  by (simp only: int_to_uint64_def scast_eq uint_word_of_int) simp

lemma uint_int_to_uint64_cases:
  "uint (int_to_uint64 n) = (if 0 \<le> sint n then sint n else sint n + 2 ^ 64)"
proof (cases "0 \<le> sint n")
  case True
  moreover have "sint n < 2 ^ 64"
    using sint_lt [of n] by simp
  ultimately show ?thesis
    by (simp add: uint_int_to_uint64 mod_pos_pos_trivial)
next
  case False
  have "sint n mod 2 ^ 64 = (sint n + 2 ^ 64) mod 2 ^ 64"
    by simp
  also have "\<dots> = sint n + 2 ^ 64"
    using False sint_ge [of n] by (intro mod_pos_pos_trivial) simp_all
  finally show ?thesis
    using False by (simp add: uint_int_to_uint64)
qed

text \<open>The divisor is the exact product as long as the product fits 64 signed bits.\<close>

lemma sint_clock_divisor:
  assumes "- (2 ^ 63) \<le> sint (freq_mhz m) * 1000000"
    and "sint (freq_mhz m) * 1000000 < 2 ^ 63"
  shows "sint (clock_divisor m) = sint (freq_mhz m) * 1000000"
proof -
  have "clock_divisor m = freq_mhz m * 1000000"
    by (simp add: clock_divisor_def mult.assoc)
  then have "sint (clock_divisor m) = signed_take_bit 63 (sint (freq_mhz m) * 1000000)"
    by (simp add: sint_word_ariths)
  with assms show ?thesis
    by (simp add: signed_take_bit_int_eq_self)
qed

text \<open>A quotient of 1,000,000,000 is at most 1,000,000,000 in magnitude.\<close>

lemma sdiv_bounds:
  fixes d :: int
  shows "- 1000000000 \<le> 1000000000 sdiv d \<and> 1000000000 sdiv d \<le> 1000000000"
proof -
  have le: "(1000000000::int) div \<bar>d\<bar> \<le> 1000000000"
  proof (cases "d = 0")
    case True
    then show ?thesis by simp
  next
    case False
    then have "1 \<le> \<bar>d\<bar>" by simp
    then show ?thesis
      using zdiv_mono2 [of 1000000000 1 "\<bar>d\<bar>"] by simp
  qed
  have ge: "0 \<le> (1000000000::int) div \<bar>d\<bar>"
    by (simp add: div_int_pos_iff)
  consider "d < 0" | "d = 0" | "0 < d" by linarith
  then show ?thesis
    using le ge by cases (simp_all add: signed_divide_int_def)
qed

lemma sint_int64_div_ns:
  "sint (int64_div NANOSECONDS_PER_SECOND d) = 1000000000 sdiv sint d"
proof -
  have "sint (int64_div NANOSECONDS_PER_SECOND d) = signed_take_bit 63 (1000000000 sdiv sint d)"
    by (simp add: int64_div_def NANOSECONDS_PER_SECOND_def signed_of_int)
  moreover have "- (2 ^ 63) \<le> 1000000000 sdiv sint d" "1000000000 sdiv sint d < 2 ^ 63"
    using sdiv_bounds [of "sint d"] by simp_all
  ultimately show ?thesis
    by (simp add: signed_take_bit_int_eq_self)
qed

text \<open>
  So the value stored in \<open>system_clock_scale\<close> is the same whether the global is 64 or 32
  bits wide.
\<close>

lemma clock_scale_fits_int:
  "sint (scast (int64_div NANOSECONDS_PER_SECOND d) :: c_int) =
     sint (int64_div NANOSECONDS_PER_SECOND d)"
proof -
  have "- (2 ^ 31) \<le> 1000000000 sdiv sint d" "1000000000 sdiv sint d < 2 ^ 31"
    using sdiv_bounds [of "sint d"] by simp_all
  then show ?thesis
    by (simp add: signed_scast_eq sint_int64_div_ns signed_take_bit_int_eq_self)
qed

section \<open>The runs of the assembly\<close>

text \<open>
  What \<open>virt_cortex_m_init\<close> does, by how far the platform lets it go: the calls it has
  made and the state it leaves.
\<close>

lemma init_realized:
  assumes "realized p (machine w)" and "clock_divisor (machine w) \<noteq> 0"
  shows "virt_cortex_m_init p w =
    \<lparr>outcome = Assembled,
     calls = [Memory_region_init_rom Flash ''virt_cortex_m.flash'' (int_to_uint64 (flash_size (machine w))),
              Memory_region_add_subregion System_memory 0 Flash,
              Memory_region_init_ram Sram ''virt_cortex_m.sram'' (int_to_uint64 (sram_size (machine w))),
              Memory_region_add_subregion System_memory 0x20000000 Sram,
              Qdev_new TYPE_ARMV7M,
              Qdev_prop_set_uint32 Nvic ''num-irq'' (nvic_num_irq (machine w)),
              Qdev_prop_set_string Nvic ''cpu-type'' (cpu_type (machine w)),
              Qdev_prop_set_bit Nvic ''enable-bitband'' True,
              Object_property_set_link Nvic ''memory'' System_memory,
              Sysbus_realize Nvic,
              Armv7m_load_kernel First_cpu (kernel_filename (machine w)) (flash_size (machine w))],
     final = w\<lparr>system_clock_scale :=
               int64_div NANOSECONDS_PER_SECOND (clock_divisor (machine w))\<rparr>\<rparr>"
  using assms
  by (simp add: virt_cortex_m_init_def realized_def realize_reached_def regions_created_def Let_def)


lemma calls_rom_ok:
  assumes "memory_region_init_rom_ok p (int_to_uint64 (flash_size (machine w)))"
  shows "\<exists>cs. calls (virt_cortex_m_init p w) =
     Memory_region_init_rom Flash ''virt_cortex_m.flash'' (int_to_uint64 (flash_size (machine w)))
     # Memory_region_add_subregion System_memory 0 Flash
     # Memory_region_init_ram Sram ''virt_cortex_m.sram'' (int_to_uint64 (sram_size (machine w))) # cs"
  using assms by (simp add: virt_cortex_m_init_def Let_def split: realize_result.split)

lemma calls_regions_created:
  assumes "regions_created p (machine w)"
  shows "\<exists>cs. calls (virt_cortex_m_init p w) =
     Memory_region_init_rom Flash ''virt_cortex_m.flash'' (int_to_uint64 (flash_size (machine w)))
     # Memory_region_add_subregion System_memory 0 Flash
     # Memory_region_init_ram Sram ''virt_cortex_m.sram'' (int_to_uint64 (sram_size (machine w)))
     # Memory_region_add_subregion System_memory 0x20000000 Sram
     # Qdev_new TYPE_ARMV7M
     # Qdev_prop_set_uint32 Nvic ''num-irq'' (nvic_num_irq (machine w))
     # Qdev_prop_set_string Nvic ''cpu-type'' (cpu_type (machine w))
     # Qdev_prop_set_bit Nvic ''enable-bitband'' True
     # Object_property_set_link Nvic ''memory'' System_memory # cs"
  using assms by (simp add: virt_cortex_m_init_def regions_created_def Let_def split: realize_result.split)

lemma calls_realize_reached:
  assumes "realize_reached p (machine w)"
  shows "\<exists>cs. calls (virt_cortex_m_init p w) =
     Memory_region_init_rom Flash ''virt_cortex_m.flash'' (int_to_uint64 (flash_size (machine w)))
     # Memory_region_add_subregion System_memory 0 Flash
     # Memory_region_init_ram Sram ''virt_cortex_m.sram'' (int_to_uint64 (sram_size (machine w)))
     # Memory_region_add_subregion System_memory 0x20000000 Sram
     # Qdev_new TYPE_ARMV7M
     # Qdev_prop_set_uint32 Nvic ''num-irq'' (nvic_num_irq (machine w))
     # Qdev_prop_set_string Nvic ''cpu-type'' (cpu_type (machine w))
     # Qdev_prop_set_bit Nvic ''enable-bitband'' True
     # Object_property_set_link Nvic ''memory'' System_memory
     # Sysbus_realize Nvic # cs"
  using assms
  by (simp add: virt_cortex_m_init_def realize_reached_def regions_created_def Let_def split: realize_result.split)

lemma init_unrealized:
  assumes "realize_reached p (machine w)"
    and "sysbus_realize p (nvic_num_irq (machine w)) (cpu_type (machine w)) \<noteq> Realize_true"
  shows "virt_cortex_m_init p w =
    \<lparr>outcome = (if sysbus_realize p (nvic_num_irq (machine w)) (cpu_type (machine w)) = Realize_false
                then Returned_unrealized else Exit_fatal),
     calls = [Memory_region_init_rom Flash ''virt_cortex_m.flash'' (int_to_uint64 (flash_size (machine w))),
              Memory_region_add_subregion System_memory 0 Flash,
              Memory_region_init_ram Sram ''virt_cortex_m.sram'' (int_to_uint64 (sram_size (machine w))),
              Memory_region_add_subregion System_memory 0x20000000 Sram,
              Qdev_new TYPE_ARMV7M,
              Qdev_prop_set_uint32 Nvic ''num-irq'' (nvic_num_irq (machine w)),
              Qdev_prop_set_string Nvic ''cpu-type'' (cpu_type (machine w)),
              Qdev_prop_set_bit Nvic ''enable-bitband'' True,
              Object_property_set_link Nvic ''memory'' System_memory,
              Sysbus_realize Nvic],
     final = w\<rparr>"
  using assms
  by (cases "sysbus_realize p (nvic_num_irq (machine w)) (cpu_type (machine w))")
     (simp_all add: virt_cortex_m_init_def realize_reached_def regions_created_def Let_def)

lemma final_machine: "machine (final (virt_cortex_m_init p w)) = machine w"
  by (simp add: virt_cortex_m_init_def Let_def split: realize_result.split)

section \<open>The registered properties\<close>

text \<open>
  What the framework finds under each of the three names after
  \<open>virt_cortex_m_class_init\<close>, whatever the parent class registered before.
\<close>

lemma find_flash_kb:
  "find (\<lambda>pr. prop_name pr = ''flash_kb'') (properties (virt_cortex_m_class_init oc)) =
     Some \<lparr>prop_name = ''flash_kb'', prop_type = ''int'', prop_get = flash_size_get,
           prop_set = flash_size_set, prop_description = Some ''Flash size in KB''\<rparr>"
  by (simp add: virt_cortex_m_class_init_def object_class_property_add_def
        object_class_property_set_description_def Let_def)

lemma find_freq_mhz:
  "find (\<lambda>pr. prop_name pr = ''freq_mhz'') (properties (virt_cortex_m_class_init oc)) =
     Some \<lparr>prop_name = ''freq_mhz'', prop_type = ''int'', prop_get = freq_mhz_get,
           prop_set = freq_mhz_set, prop_description = Some ''MCU frequency in MHz''\<rparr>"
  by (simp add: virt_cortex_m_class_init_def object_class_property_add_def
        object_class_property_set_description_def Let_def)

lemma find_num_irq:
  "find (\<lambda>pr. prop_name pr = ''num_irq'') (properties (virt_cortex_m_class_init oc)) =
     Some \<lparr>prop_name = ''num_irq'', prop_type = ''int'', prop_get = num_irq_get,
           prop_set = num_irq_set, prop_description = Some ''Number of IRQs''\<rparr>"
  by (simp add: virt_cortex_m_class_init_def object_class_property_add_def
        object_class_property_set_description_def Let_def)

section \<open>Properties of the board\<close>

subsection \<open>The clock scale\<close>

text \<open>
  C1, as amended. When the device has been realized and the frequency \<open>freq_mhz\<close> is
  positive with \<open>freq_mhz * 1,000,000\<close> inside the signed 64-bit range, assembly completes
  and the value stored in \<open>system_clock_scale\<close> is \<open>1,000,000,000 div (freq_mhz * 1,000,000)\<close>.
\<close>

theorem clock_scale_published:
  assumes "realized p (machine w)"
    and "0 < sint (freq_mhz (machine w))"
    and "sint (freq_mhz (machine w)) * 1000000 < 2 ^ 63"
  shows "outcome (virt_cortex_m_init p w) = Assembled \<and>
         sint (system_clock_scale (final (virt_cortex_m_init p w))) =
           1000000000 div (sint (freq_mhz (machine w)) * 1000000)"
proof -
  let ?f = "sint (freq_mhz (machine w))"
  have d: "sint (clock_divisor (machine w)) = ?f * 1000000"
    using assms(2,3) by (intro sint_clock_divisor) simp_all
  with assms(2) have nz: "clock_divisor (machine w) \<noteq> 0"
    by auto
  have "sint (int64_div NANOSECONDS_PER_SECOND (clock_divisor (machine w))) =
          1000000000 sdiv (?f * 1000000)"
    by (simp add: sint_int64_div_ns d)
  also have "\<dots> = 1000000000 div (?f * 1000000)"
    using assms(2) by (simp add: signed_divide_int_def sgn_mult)
  finally show ?thesis
    by (simp add: init_realized [OF assms(1) nz])
qed

text \<open>
  At 50 MHz the scale is 20 and at 1 MHz it is 1000.
\<close>

theorem clock_scale_published_witness:
  "realized accepting_platform (machine (board 1024 50 64 65536)) \<and>
   0 < sint (freq_mhz (machine (board 1024 50 64 65536))) \<and>
   sint (freq_mhz (machine (board 1024 50 64 65536))) * 1000000 < 2 ^ 63 \<and>
   outcome (virt_cortex_m_init accepting_platform (board 1024 50 64 65536)) = Assembled \<and>
   sint (system_clock_scale (final (virt_cortex_m_init accepting_platform
           (board 1024 50 64 65536)))) = 20 \<and>
   sint (system_clock_scale (final (virt_cortex_m_init accepting_platform
           (board 1024 1 64 65536)))) = 1000"
proof -
  have a: "realized accepting_platform (machine (board 1024 50 64 65536))"
    "realized accepting_platform (machine (board 1024 1 64 65536))"
    by (simp_all add: realized_def realize_reached_def regions_created_def accepting_platform_def)
  have b: "0 < sint (freq_mhz (machine (board 1024 50 64 65536)))"
    "sint (freq_mhz (machine (board 1024 50 64 65536))) * 1000000 < 2 ^ 63"
    "0 < sint (freq_mhz (machine (board 1024 1 64 65536)))"
    "sint (freq_mhz (machine (board 1024 1 64 65536))) * 1000000 < 2 ^ 63"
    by (simp_all add: board_def)
  have c: "sint (freq_mhz (machine (board 1024 50 64 65536))) = 50"
    "sint (freq_mhz (machine (board 1024 1 64 65536))) = 1"
    by (simp_all add: board_def)
  show ?thesis
    using clock_scale_published [OF a(1) b(1) b(2)] clock_scale_published [OF a(2) b(3) b(4)]
      a(1) b(1) b(2)
    unfolding c by simp
qed

text \<open>
  Without the bound the equation fails: at \<open>freq_mhz = 2^58 + 1\<close> the 64-bit product wraps
  to 1,000,000 and the scale stored is 1000, where the quotient on the integers is 0.
\<close>

theorem clock_scale_overflow_counterexample:
  "realized accepting_platform (machine (board 1024 288230376151711745 64 65536)) \<and>
   0 < sint (freq_mhz (machine (board 1024 288230376151711745 64 65536))) \<and>
   sint (system_clock_scale (final (virt_cortex_m_init accepting_platform
           (board 1024 288230376151711745 64 65536)))) = 1000 \<and>
   1000000000 div (sint (freq_mhz (machine (board 1024 288230376151711745 64 65536))) * 1000000) = 0 \<and>
   sint (system_clock_scale (final (virt_cortex_m_init accepting_platform
           (board 1024 288230376151711745 64 65536)))) \<noteq>
     1000000000 div (sint (freq_mhz (machine (board 1024 288230376151711745 64 65536))) * 1000000)"
  by (simp add: virt_cortex_m_init_def realized_def realize_reached_def regions_created_def
        accepting_platform_def board_def Let_def clock_divisor_def int64_div_def
        NANOSECONDS_PER_SECOND_def signed_divide_int_def)

subsection \<open>The flash region\<close>

text \<open>
  C2, as amended. When the flash region can be allocated and \<open>flash_size_kb\<close> is positive,
  the region is mapped at offset 0 of the system memory, and for \<open>flash_size_kb < 2^21\<close>
  the size it is created with is \<open>flash_size_kb * 1024\<close> bytes.
\<close>

theorem flash_region_size_and_base:
  assumes "memory_region_init_rom_ok p (int_to_uint64 (flash_size (machine w)))"
    and "0 < sint (flash_size_kb (machine w))"
  shows "region_base Flash (calls (virt_cortex_m_init p w)) = Some 0 \<and>
         (sint (flash_size_kb (machine w)) < 2 ^ 21 \<longrightarrow>
            map_option uint (region_size Flash (calls (virt_cortex_m_init p w))) =
              Some (sint (flash_size_kb (machine w)) * 1024))"
proof -
  have "uint (int_to_uint64 (flash_size (machine w))) = sint (flash_size_kb (machine w)) * 1024"
    if lt: "sint (flash_size_kb (machine w)) < 2 ^ 21"
  proof -
    have "sint (flash_size (machine w)) = sint (flash_size_kb (machine w)) * 1024"
      using assms(2) lt by (simp add: sint_flash_size signed_take_bit_int_eq_self)
    with assms(2) show ?thesis
      by (simp add: uint_int_to_uint64_cases)
  qed
  moreover obtain cs where "calls (virt_cortex_m_init p w) =
     Memory_region_init_rom Flash ''virt_cortex_m.flash'' (int_to_uint64 (flash_size (machine w)))
     # Memory_region_add_subregion System_memory 0 Flash
     # Memory_region_init_ram Sram ''virt_cortex_m.sram'' (int_to_uint64 (sram_size (machine w)))
     # cs"
    using calls_rom_ok [OF assms(1)] by blast
  ultimately show ?thesis by simp
qed

text \<open>The default board: 1024 KB give a region of 1,048,576 bytes at 0.\<close>

theorem flash_region_size_and_base_witness:
  "memory_region_init_rom_ok accepting_platform
     (int_to_uint64 (flash_size (machine (board 1024 50 64 65536)))) \<and>
   0 < sint (flash_size_kb (machine (board 1024 50 64 65536))) \<and>
   sint (flash_size_kb (machine (board 1024 50 64 65536))) < 2 ^ 21 \<and>
   map_option uint (region_size Flash (calls (virt_cortex_m_init accepting_platform
      (board 1024 50 64 65536)))) = Some 1048576 \<and>
   region_base Flash (calls (virt_cortex_m_init accepting_platform (board 1024 50 64 65536))) =
     Some 0"
proof -
  have a: "memory_region_init_rom_ok accepting_platform
      (int_to_uint64 (flash_size (machine (board 1024 50 64 65536))))"
    by (simp add: accepting_platform_def)
  have b: "0 < sint (flash_size_kb (machine (board 1024 50 64 65536)))"
    by (simp add: board_def)
  have c: "sint (flash_size_kb (machine (board 1024 50 64 65536))) = 1024"
    by (simp add: board_def)
  show ?thesis
    using flash_region_size_and_base [OF a b] a unfolding c by simp
qed

text \<open>
  At \<open>flash_size_kb = 2^22 + 64\<close> the region is created with 65,536 bytes, not with
  4,295,032,832.
\<close>

theorem flash_region_size_counterexample:
  "memory_region_init_rom_ok accepting_platform
     (int_to_uint64 (flash_size (machine (board 4194368 50 64 65536)))) \<and>
   0 < sint (flash_size_kb (machine (board 4194368 50 64 65536))) \<and>
   map_option uint (region_size Flash (calls (virt_cortex_m_init accepting_platform
      (board 4194368 50 64 65536)))) = Some 65536 \<and>
   sint (flash_size_kb (machine (board 4194368 50 64 65536))) * 1024 = 4295032832 \<and>
   map_option uint (region_size Flash (calls (virt_cortex_m_init accepting_platform
      (board 4194368 50 64 65536)))) \<noteq>
     Some (sint (flash_size_kb (machine (board 4194368 50 64 65536))) * 1024)"
  by (simp add: virt_cortex_m_init_def accepting_platform_def board_def Let_def flash_size_def
        int_to_uint64_def clock_divisor_def)

subsection \<open>Failure of the realization\<close>

text \<open>
  C3. When \<open>sysbus_realize\<close> is reached and does not succeed (it returns false, or ends the
  process through \<open>error_fatal\<close>), assembly stops there: the call to \<open>sysbus_realize\<close> is
  the last call made, the loader is not called, and \<open>system_clock_scale\<close>, like the rest of
  the state, is what it was before.
\<close>

theorem realize_failure_stops_assembly:
  assumes "realize_reached p (machine w)"
    and "sysbus_realize p (nvic_num_irq (machine w)) (cpu_type (machine w)) \<noteq> Realize_true"
  shows "outcome (virt_cortex_m_init p w) \<noteq> Assembled \<and>
         last (calls (virt_cortex_m_init p w)) = Sysbus_realize Nvic \<and>
         filter loader_call (calls (virt_cortex_m_init p w)) = [] \<and>
         system_clock_scale (final (virt_cortex_m_init p w)) = system_clock_scale w \<and>
         final (virt_cortex_m_init p w) = w"
  by (simp add: init_unrealized [OF assms])

text \<open>
  A platform whose \<open>sysbus_realize\<close> returns false, on the default board.
\<close>

theorem realize_failure_stops_assembly_witness:
  "realize_reached unrealizable_platform (machine (board 1024 50 64 65536)) \<and>
   sysbus_realize unrealizable_platform (nvic_num_irq (machine (board 1024 50 64 65536)))
      (cpu_type (machine (board 1024 50 64 65536))) \<noteq> Realize_true \<and>
   outcome (virt_cortex_m_init unrealizable_platform (board 1024 50 64 65536)) =
     Returned_unrealized \<and>
   last (calls (virt_cortex_m_init unrealizable_platform (board 1024 50 64 65536))) =
     Sysbus_realize Nvic \<and>
   filter loader_call (calls (virt_cortex_m_init unrealizable_platform (board 1024 50 64 65536))) =
     [] \<and>
   system_clock_scale (final (virt_cortex_m_init unrealizable_platform (board 1024 50 64 65536))) =
     0"
proof -
  have a: "realize_reached unrealizable_platform (machine (board 1024 50 64 65536))"
    by (simp add: realize_reached_def regions_created_def unrealizable_platform_def)
  have b: "sysbus_realize unrealizable_platform (nvic_num_irq (machine (board 1024 50 64 65536)))
      (cpu_type (machine (board 1024 50 64 65536))) \<noteq> Realize_true"
    by (simp add: unrealizable_platform_def)
  have c: "outcome (virt_cortex_m_init unrealizable_platform (board 1024 50 64 65536)) =
      Returned_unrealized"
    by (simp add: virt_cortex_m_init_def unrealizable_platform_def Let_def)
  have d: "system_clock_scale (board 1024 50 64 65536) = 0"
    by (simp add: board_def)
  show ?thesis
    using realize_failure_stops_assembly [OF a b] a b c d by simp
qed

subsection \<open>The RAM region\<close>

text \<open>
  C4, as amended. When both regions can be allocated, the RAM region is mapped at offset
  \<open>0x20000000\<close> of the system memory whatever the RAM size and the flash size are, and for
  \<open>ram_size < 2^31\<close> the size it is created with is the requested \<open>ram_size\<close>.
\<close>

theorem sram_region_base_and_size:
  assumes "regions_created p (machine w)"
  shows "region_base Sram (calls (virt_cortex_m_init p w)) = Some 0x20000000 \<and>
         (uint (ram_size (machine w)) < 2 ^ 31 \<longrightarrow>
            map_option uint (region_size Sram (calls (virt_cortex_m_init p w))) =
              Some (uint (ram_size (machine w))))"
proof -
  have "uint (int_to_uint64 (sram_size (machine w))) = uint (ram_size (machine w))"
    if lt: "uint (ram_size (machine w)) < 2 ^ 31"
  proof -
    have "- (2 ^ 31) \<le> uint (ram_size (machine w))"
      by (rule order_trans [of _ 0]) simp_all
    then have "sint (sram_size (machine w)) = uint (ram_size (machine w))"
      using lt by (simp add: sint_sram_size signed_take_bit_int_eq_self)
    then show ?thesis
      by (simp add: uint_int_to_uint64_cases)
  qed
  moreover obtain cs where "calls (virt_cortex_m_init p w) =
     Memory_region_init_rom Flash ''virt_cortex_m.flash'' (int_to_uint64 (flash_size (machine w)))
     # Memory_region_add_subregion System_memory 0 Flash
     # Memory_region_init_ram Sram ''virt_cortex_m.sram'' (int_to_uint64 (sram_size (machine w)))
     # Memory_region_add_subregion System_memory 0x20000000 Sram
     # Qdev_new TYPE_ARMV7M
     # Qdev_prop_set_uint32 Nvic ''num-irq'' (nvic_num_irq (machine w))
     # Qdev_prop_set_string Nvic ''cpu-type'' (cpu_type (machine w))
     # Qdev_prop_set_bit Nvic ''enable-bitband'' True
     # Object_property_set_link Nvic ''memory'' System_memory # cs"
    using calls_regions_created [OF assms(1)] by blast
  ultimately show ?thesis by simp
qed

text \<open>Two boards with 64 KB and 1024 KB of flash and the same 65,536 bytes of RAM.\<close>

theorem sram_region_base_and_size_witness:
  "regions_created accepting_platform (machine (board 64 50 64 65536)) \<and>
   regions_created accepting_platform (machine (board 1024 50 64 65536)) \<and>
   uint (ram_size (machine (board 64 50 64 65536))) < 2 ^ 31 \<and>
   uint (ram_size (machine (board 1024 50 64 65536))) < 2 ^ 31 \<and>
   region_base Sram (calls (virt_cortex_m_init accepting_platform (board 64 50 64 65536))) =
     Some 0x20000000 \<and>
   region_base Sram (calls (virt_cortex_m_init accepting_platform (board 1024 50 64 65536))) =
     Some 0x20000000 \<and>
   map_option uint (region_size Sram (calls (virt_cortex_m_init accepting_platform
      (board 64 50 64 65536)))) = Some 65536 \<and>
   map_option uint (region_size Sram (calls (virt_cortex_m_init accepting_platform
      (board 1024 50 64 65536)))) = Some 65536"
proof -
  have a: "regions_created accepting_platform (machine (board 64 50 64 65536))"
    "regions_created accepting_platform (machine (board 1024 50 64 65536))"
    by (simp_all add: regions_created_def accepting_platform_def)
  have c: "uint (ram_size (machine (board 64 50 64 65536))) = 65536"
    "uint (ram_size (machine (board 1024 50 64 65536))) = 65536"
    by (simp_all add: board_def)
  show ?thesis
    using sram_region_base_and_size [OF a(1)] sram_region_base_and_size [OF a(2)] a
    unfolding c by simp
qed

text \<open>
  At \<open>ram_size = 2^32 + 16384\<close> the region is created with 16,384 bytes, not with
  4,294,983,680.
\<close>

theorem sram_region_size_counterexample:
  "regions_created accepting_platform (machine (board 1024 50 64 4294983680)) \<and>
   map_option uint (region_size Sram (calls (virt_cortex_m_init accepting_platform
      (board 1024 50 64 4294983680)))) = Some 16384 \<and>
   uint (ram_size (machine (board 1024 50 64 4294983680))) = 4294983680 \<and>
   map_option uint (region_size Sram (calls (virt_cortex_m_init accepting_platform
      (board 1024 50 64 4294983680)))) \<noteq>
     Some (uint (ram_size (machine (board 1024 50 64 4294983680))))"
  by (simp add: virt_cortex_m_init_def regions_created_def accepting_platform_def board_def Let_def
        sram_size_def int_to_uint64_def clock_divisor_def)

subsection \<open>Defaults and accessors\<close>

text \<open>
  C5. After \<open>virt_cortex_m_instance_init\<close>, on any object, the three parameters are
  \<open>flash_size_kb = 1024\<close>, \<open>freq_mhz = 50\<close> and \<open>num_irq = 64\<close>.
\<close>

theorem instance_init_defaults:
  "flash_size_kb (virt_cortex_m_instance_init m) = 1024 \<and>
   freq_mhz (virt_cortex_m_instance_init m) = 50 \<and>
   num_irq (virt_cortex_m_instance_init m) = 64"
  by (simp add: virt_cortex_m_instance_init_def)

text \<open>
  C6. For each of the names \<open>flash_kb\<close>, \<open>freq_mhz\<close> and \<open>num_irq\<close> and every 64-bit value
  \<open>v\<close>, writing \<open>v\<close> to the property and then reading the property gives \<open>v\<close>; the same holds
  of each set accessor followed by its get accessor, called directly on an input visitor
  holding \<open>v\<close> and an empty output visitor.
\<close>

theorem property_set_get_round_trip:
  "Option.bind (object_property_set_int (virt_cortex_m_class_init oc) ''flash_kb'' v m)
     (object_property_get_int (virt_cortex_m_class_init oc) ''flash_kb'') = Some v \<and>
   Option.bind (object_property_set_int (virt_cortex_m_class_init oc) ''freq_mhz'' v m)
     (object_property_get_int (virt_cortex_m_class_init oc) ''freq_mhz'') = Some v \<and>
   Option.bind (object_property_set_int (virt_cortex_m_class_init oc) ''num_irq'' v m)
     (object_property_get_int (virt_cortex_m_class_init oc) ''num_irq'') = Some v \<and>
   fst (snd (flash_size_get (fst (flash_size_set m (Input_visitor (Some v)))) (Output_visitor []))) =
     Output_visitor [v] \<and>
   fst (snd (freq_mhz_get (fst (freq_mhz_set m (Input_visitor (Some v)))) (Output_visitor []))) =
     Output_visitor [v] \<and>
   fst (snd (num_irq_get (fst (num_irq_set m (Input_visitor (Some v)))) (Output_visitor []))) =
     Output_visitor [v]"
  by (simp add: object_property_set_int_def object_property_get_int_def
        find_flash_kb find_freq_mhz find_num_irq
        flash_size_set_def flash_size_get_def freq_mhz_set_def freq_mhz_get_def
        num_irq_set_def num_irq_get_def)

subsection \<open>The interrupt controller\<close>

text \<open>
  C7, as amended. When \<open>sysbus_realize\<close> is reached, the calls made on the device between
  its creation and its realization are exactly four, in this order: the line count
  \<open>num-irq\<close>, the CPU type \<open>cpu-type\<close> of the machine, the bit \<open>enable-bitband\<close> set, and the
  link \<open>memory\<close> to the system memory. The line count is \<open>num_irq\<close> converted to 32 unsigned
  bits, that is \<open>num_irq mod 2^32\<close>, which is \<open>num_irq\<close> itself when \<open>0 \<le> num_irq < 2^32\<close>.
\<close>

theorem nvic_configured_before_realize:
  assumes "realize_reached p (machine w)"
  shows "calls_before_realize (calls (virt_cortex_m_init p w)) =
           [Qdev_prop_set_uint32 Nvic ''num-irq'' (nvic_num_irq (machine w)),
            Qdev_prop_set_string Nvic ''cpu-type'' (cpu_type (machine w)),
            Qdev_prop_set_bit Nvic ''enable-bitband'' True,
            Object_property_set_link Nvic ''memory'' System_memory] \<and>
         uint (nvic_num_irq (machine w)) = sint (num_irq (machine w)) mod 2 ^ 32 \<and>
         (0 \<le> sint (num_irq (machine w)) \<and> sint (num_irq (machine w)) < 2 ^ 32 \<longrightarrow>
            uint (nvic_num_irq (machine w)) = sint (num_irq (machine w))) \<and>
         Sysbus_realize Nvic \<in> set (calls (virt_cortex_m_init p w))"
proof -
  obtain cs where "calls (virt_cortex_m_init p w) =
     Memory_region_init_rom Flash ''virt_cortex_m.flash'' (int_to_uint64 (flash_size (machine w)))
     # Memory_region_add_subregion System_memory 0 Flash
     # Memory_region_init_ram Sram ''virt_cortex_m.sram'' (int_to_uint64 (sram_size (machine w)))
     # Memory_region_add_subregion System_memory 0x20000000 Sram
     # Qdev_new TYPE_ARMV7M
     # Qdev_prop_set_uint32 Nvic ''num-irq'' (nvic_num_irq (machine w))
     # Qdev_prop_set_string Nvic ''cpu-type'' (cpu_type (machine w))
     # Qdev_prop_set_bit Nvic ''enable-bitband'' True
     # Object_property_set_link Nvic ''memory'' System_memory
     # Sysbus_realize Nvic # cs"
    using calls_realize_reached [OF assms] by blast
  then show ?thesis
    by (simp add: calls_before_realize_def uint_nvic_num_irq)
qed

text \<open>
  The default board: 64 lines.
\<close>

theorem nvic_configured_before_realize_witness:
  "realize_reached accepting_platform (machine (board 1024 50 64 65536)) \<and>
   0 \<le> sint (num_irq (machine (board 1024 50 64 65536))) \<and>
   sint (num_irq (machine (board 1024 50 64 65536))) < 2 ^ 32 \<and>
   uint (nvic_num_irq (machine (board 1024 50 64 65536))) = 64 \<and>
   calls_before_realize (calls (virt_cortex_m_init accepting_platform (board 1024 50 64 65536))) =
     [Qdev_prop_set_uint32 Nvic ''num-irq'' 64,
      Qdev_prop_set_string Nvic ''cpu-type'' ''cortex-m3-arm-cpu'',
      Qdev_prop_set_bit Nvic ''enable-bitband'' True,
      Object_property_set_link Nvic ''memory'' System_memory]"
proof -
  have a: "realize_reached accepting_platform (machine (board 1024 50 64 65536))"
    by (simp add: realize_reached_def regions_created_def accepting_platform_def)
  have b: "nvic_num_irq (machine (board 1024 50 64 65536)) = 64"
    "cpu_type (machine (board 1024 50 64 65536)) = ''cortex-m3-arm-cpu''"
    "sint (num_irq (machine (board 1024 50 64 65536))) = 64"
    by (simp_all add: nvic_num_irq_def board_def)
  show ?thesis
    using nvic_configured_before_realize [OF a] a unfolding b by simp
qed

text \<open>
  At \<open>num_irq = 2^32 + 32\<close> the device is configured with 32 lines, not with
  4,294,967,328.
\<close>

theorem nvic_line_count_counterexample:
  "realize_reached accepting_platform (machine (board 1024 50 4294967328 65536)) \<and>
   calls_before_realize (calls (virt_cortex_m_init accepting_platform (board 1024 50 4294967328 65536))) =
           [Qdev_prop_set_uint32 Nvic ''num-irq'' 32,
            Qdev_prop_set_string Nvic ''cpu-type'' ''cortex-m3-arm-cpu'',
            Qdev_prop_set_bit Nvic ''enable-bitband'' True,
            Object_property_set_link Nvic ''memory'' System_memory] \<and>
   sint (num_irq (machine (board 1024 50 4294967328 65536))) = 4294967328 \<and>
   uint (nvic_num_irq (machine (board 1024 50 4294967328 65536))) = 32 \<and>
   uint (nvic_num_irq (machine (board 1024 50 4294967328 65536))) \<noteq>
     sint (num_irq (machine (board 1024 50 4294967328 65536)))"
  by (simp add: virt_cortex_m_init_def realize_reached_def regions_created_def
        accepting_platform_def board_def Let_def nvic_num_irq_def clock_divisor_def
        calls_before_realize_def)

subsection \<open>A scenario\<close>

text \<open>
  C8. With \<open>flash_size_kb = 64\<close>, \<open>freq_mhz = 25\<close>, \<open>num_irq = 32\<close> and a RAM size of 16384,
  on a platform where every step succeeds, assembly completes with the flash region over
  \<open>[0, 65536)\<close>, the RAM region over \<open>[0x20000000, 0x20004000)\<close>, a clock scale of 40 and the
  device configured with 32 lines.
\<close>

theorem scenario_64k_25mhz:
  assumes "flash_size_kb (machine w) = 64" and "freq_mhz (machine w) = 25"
    and "num_irq (machine w) = 32" and "ram_size (machine w) = 16384"
    and "realized p (machine w)"
  shows "outcome (virt_cortex_m_init p w) = Assembled \<and>
         region_extent Flash (calls (virt_cortex_m_init p w)) = Some (0, 65536) \<and>
         region_extent Sram (calls (virt_cortex_m_init p w)) = Some (0x20000000, 0x20004000) \<and>
         sint (system_clock_scale (final (virt_cortex_m_init p w))) = 40 \<and>
         calls_before_realize (calls (virt_cortex_m_init p w)) =
           [Qdev_prop_set_uint32 Nvic ''num-irq'' 32,
            Qdev_prop_set_string Nvic ''cpu-type'' (cpu_type (machine w)),
            Qdev_prop_set_bit Nvic ''enable-bitband'' True,
            Object_property_set_link Nvic ''memory'' System_memory]"
proof -
  have v: "flash_size (machine w) = 65536" "sram_size (machine w) = 16384"
    "nvic_num_irq (machine w) = 32" "clock_divisor (machine w) = 25000000"
    by (simp_all add: flash_size_def sram_size_def nvic_num_irq_def clock_divisor_def assms)
  have nz: "clock_divisor (machine w) \<noteq> 0"
    by (simp add: v)
  have q: "int64_div NANOSECONDS_PER_SECOND 25000000 = 40"
    by (simp add: int64_div_def NANOSECONDS_PER_SECOND_def signed_divide_int_def)
  show ?thesis
    by (simp add: init_realized [OF assms(5) nz] v q region_extent_def calls_before_realize_def
          int_to_uint64_def)
qed

text \<open>
  The scenario on the platform that accepts everything.
\<close>

theorem scenario_64k_25mhz_witness:
  "flash_size_kb (machine (board 64 25 32 16384)) = 64 \<and>
   freq_mhz (machine (board 64 25 32 16384)) = 25 \<and>
   num_irq (machine (board 64 25 32 16384)) = 32 \<and>
   ram_size (machine (board 64 25 32 16384)) = 16384 \<and>
   realized accepting_platform (machine (board 64 25 32 16384)) \<and>
   outcome (virt_cortex_m_init accepting_platform (board 64 25 32 16384)) = Assembled \<and>
   region_extent Flash (calls (virt_cortex_m_init accepting_platform (board 64 25 32 16384))) =
     Some (0, 65536) \<and>
   region_extent Sram (calls (virt_cortex_m_init accepting_platform (board 64 25 32 16384))) =
     Some (536870912, 536887296) \<and>
   sint (system_clock_scale (final (virt_cortex_m_init accepting_platform (board 64 25 32 16384)))) = 40"
proof -
  have a: "flash_size_kb (machine (board 64 25 32 16384)) = 64"
    "freq_mhz (machine (board 64 25 32 16384)) = 25"
    "num_irq (machine (board 64 25 32 16384)) = 32"
    "ram_size (machine (board 64 25 32 16384)) = 16384"
    by (simp_all add: board_def)
  have b: "realized accepting_platform (machine (board 64 25 32 16384))"
    by (simp add: realized_def realize_reached_def regions_created_def accepting_platform_def)
  show ?thesis
    using scenario_64k_25mhz [OF a b] a b by simp
qed

subsection \<open>Frame and widths\<close>

text \<open>
  C9. However a run of the assembly ends, the three parameters of the machine are
  afterwards what they were before.
\<close>

theorem assembly_keeps_parameters:
  "flash_size_kb (machine (final (virt_cortex_m_init p w))) = flash_size_kb (machine w) \<and>
   freq_mhz (machine (final (virt_cortex_m_init p w))) = freq_mhz (machine w) \<and>
   num_irq (machine (final (virt_cortex_m_init p w))) = num_irq (machine w)"
  by (simp add: final_machine)




end
